theory Spec2Isabelle
  imports Main
begin

section \<open>HTTP exceptions of the backend\<close>

text \<open>
  The NestJS exception classes thrown by the services, controllers and guards. Each
  carries the optional message given to its constructor (\<open>None\<close> for
  \<^verbatim>\<open>new UnauthorizedException()\<close>). \<open>QueryFailedError\<close> is the ORM's error for a
  violated column constraint; it is not an HTTP exception and surfaces as status 500.
\<close>

datatype HttpException =
    UnauthorizedException "string option"
  | ForbiddenException "string option"
  | ConflictException "string option"
  | NotFoundException "string option"
  | QueryFailedError

fun getStatus :: "HttpException \<Rightarrow> nat" where
  "getStatus (UnauthorizedException _) = 401"
| "getStatus (ForbiddenException _) = 403"
| "getStatus (NotFoundException _) = 404"
| "getStatus (ConflictException _) = 409"
| "getStatus QueryFailedError = 500"

section \<open>Users\<close>

text \<open>
  \<^verbatim>\<open>user.entity.ts\<close>: the columns of the \<open>User\<close> entity. The role column is a string
  at run time (\<^verbatim>\<open>'admin' | 'instructor' | 'student'\<close> is a compile-time annotation only).
  The relations \<open>courses\<close> and \<open>enrollments\<close> are not loaded by any operation below.
\<close>

record User =
  user_id :: nat
  user_name :: string
  user_email :: string
  user_password :: string
  user_role :: string

text \<open>
  The users table behind \<^verbatim>\<open>Repository<User>\<close>: its rows in insertion order and the last
  value handed out by \<^verbatim>\<open>@PrimaryGeneratedColumn()\<close>.
\<close>

record UsersRepo =
  users_rows :: "User list"
  users_last_id :: nat

text \<open>
  The two functions of \<^verbatim>\<open>bcryptjs\<close> the users service calls: \<^verbatim>\<open>bcrypt.hash(password, rounds)\<close>
  and \<^verbatim>\<open>bcrypt.compare(password, hash)\<close>. They are parameters of the model.
\<close>

record Bcrypt =
  bcrypt_hash :: "string \<Rightarrow> nat \<Rightarrow> string"
  bcrypt_compare :: "string \<Rightarrow> string \<Rightarrow> bool"

text \<open>
  Modelled from the spec: \<^verbatim>\<open>UsersService.findByEmail\<close> is called by the auth service but
  its body is not part of the sources. The spec says the issuer "looks up the principal by
  email", absent when there is none: the first row with that email, if any.
\<close>

definition findByEmail :: "UsersRepo \<Rightarrow> string \<Rightarrow> User option" where
  "findByEmail repo email = find (\<lambda>u. user_email u = email) (users_rows repo)"

text \<open>
  Modelled from the spec: \<^verbatim>\<open>UsersService.findOne\<close> is called by the JWT strategy but its
  body is not part of the sources. The spec says the gate "re-fetches the current principal
  record" for the subject id, absent when "the principal no longer exists".
\<close>

definition findOne :: "UsersRepo \<Rightarrow> nat \<Rightarrow> User option" where
  "findOne repo i = find (\<lambda>u. user_id u = i) (users_rows repo)"

text \<open>The argument of \<^verbatim>\<open>UsersService.create\<close>: the registration fields, role filled in.\<close>

record NewUser =
  new_name :: string
  new_email :: string
  new_password :: string
  new_role :: string

text \<open>
  \<^verbatim>\<open>UsersService.create\<close>: hash the password with 10 rounds, build the entity with the
  hashed password in place of the submitted one, and save it. Saving assigns the next
  generated id; the \<^verbatim>\<open>unique: true\<close> email column makes the save fail on a duplicate.
\<close>

definition UsersService_create ::
  "Bcrypt \<Rightarrow> UsersRepo \<Rightarrow> NewUser \<Rightarrow> (HttpException + User) \<times> UsersRepo" where
  "UsersService_create bcrypt repo user =
     (let hashedPassword = bcrypt_hash bcrypt (new_password user) 10;
          newUser = \<lparr> user_id = Suc (users_last_id repo),
                      user_name = new_name user,
                      user_email = new_email user,
                      user_password = hashedPassword,
                      user_role = new_role user \<rparr>
      in if list_ex (\<lambda>u. user_email u = new_email user) (users_rows repo)
         then (Inl QueryFailedError, repo)
         else (Inr newUser,
               repo \<lparr> users_rows := users_rows repo @ [newUser],
                      users_last_id := Suc (users_last_id repo) \<rparr>))"

text \<open>\<^verbatim>\<open>UsersService.validatePassword\<close>: \<^verbatim>\<open>bcrypt.compare(password, user.password)\<close>.\<close>

definition validatePassword :: "Bcrypt \<Rightarrow> User \<Rightarrow> string \<Rightarrow> bool" where
  "validatePassword bcrypt user password = bcrypt_compare bcrypt password (user_password user)"

section \<open>JSON Web Tokens\<close>

text \<open>The payload the auth service signs: \<^verbatim>\<open>{ email, sub, role }\<close>.\<close>

record JwtPayload =
  payload_email :: string
  payload_sub :: nat
  payload_role :: string

text \<open>
  A well-formed token, symbolically: its claim set, the issued-at and optional expiry
  stamps the signer adds, and the key its signature was made with. A signature verifies
  under a key exactly when it was made with that key.
\<close>

record Jwt =
  jwt_claims :: JwtPayload
  jwt_iat :: nat
  jwt_exp :: "nat option"
  jwt_signed_with :: string

datatype BearerToken = Malformed string | WellFormed Jwt

text \<open>
  The \<^verbatim>\<open>JwtService\<close> injected into the auth service. The \<^verbatim>\<open>JwtModule\<close> registration
  (secret, \<^verbatim>\<open>expiresIn\<close>) is not part of the sources, so both are parameters, with the clock.
\<close>

record JwtService =
  jwt_secret :: string
  jwt_expiresIn :: "nat option"
  jwt_now :: nat

definition JwtService_sign :: "JwtService \<Rightarrow> JwtPayload \<Rightarrow> BearerToken" where
  "JwtService_sign jwtService payload =
     WellFormed \<lparr> jwt_claims = payload,
                  jwt_iat = jwt_now jwtService,
                  jwt_exp = map_option (\<lambda>d. jwt_now jwtService + d) (jwt_expiresIn jwtService),
                  jwt_signed_with = jwt_secret jwtService \<rparr>"

text \<open>Decoding reads the claim set without checking the signature.\<close>

fun jwt_decode :: "BearerToken \<Rightarrow> JwtPayload option" where
  "jwt_decode (Malformed _) = None"
| "jwt_decode (WellFormed t) = Some (jwt_claims t)"

section \<open>Credential issuer: the auth service\<close>

text \<open>A user without the \<open>password\<close> property: \<^verbatim>\<open>const { password: _, ...result } = user\<close>.\<close>

record UserView =
  view_id :: nat
  view_name :: string
  view_email :: string
  view_role :: string

definition omit_password :: "User \<Rightarrow> UserView" where
  "omit_password user =
     \<lparr> view_id = user_id user, view_name = user_name user,
       view_email = user_email user, view_role = user_role user \<rparr>"

record AuthPayloadDto =
  dto_email :: string
  dto_password :: string

record RegisterDto =
  reg_name :: string
  reg_email :: string
  reg_password :: string
  reg_role :: "string option"

record LoginResponse =
  access_token :: BearerToken
  response_user :: UserView

text \<open>\<^verbatim>\<open>AuthService.validateUser\<close>.\<close>

definition AuthService_validateUser ::
  "Bcrypt \<Rightarrow> UsersRepo \<Rightarrow> AuthPayloadDto \<Rightarrow> HttpException + UserView" where
  "AuthService_validateUser bcrypt repo dto =
     (case findByEmail repo (dto_email dto) of
        None \<Rightarrow> Inl (UnauthorizedException (Some ''Invalid credentials''))
      | Some user \<Rightarrow>
          if \<not> validatePassword bcrypt user (dto_password dto)
          then Inl (UnauthorizedException (Some ''Invalid credentials''))
          else Inr (omit_password user))"

text \<open>\<^verbatim>\<open>AuthService.login\<close>.\<close>

definition AuthService_login :: "JwtService \<Rightarrow> UserView \<Rightarrow> LoginResponse" where
  "AuthService_login jwtService user =
     (let payload = \<lparr> payload_email = view_email user,
                       payload_sub = view_id user,
                       payload_role = view_role user \<rparr>
      in \<lparr> access_token = JwtService_sign jwtService payload,
           response_user = \<lparr> view_id = view_id user, view_name = view_name user,
                             view_email = view_email user, view_role = view_role user \<rparr> \<rparr>)"

text \<open>\<^verbatim>\<open>AuthController.login\<close>, the handler of \<^verbatim>\<open>POST /auth/login\<close>.\<close>

definition AuthController_login ::
  "Bcrypt \<Rightarrow> JwtService \<Rightarrow> UsersRepo \<Rightarrow> AuthPayloadDto \<Rightarrow> HttpException + LoginResponse" where
  "AuthController_login bcrypt jwtService repo authPayload =
     (case AuthService_validateUser bcrypt repo authPayload of
        Inl e \<Rightarrow> Inl e
      | Inr user \<Rightarrow> Inr (AuthService_login jwtService user))"

text \<open>
  JavaScript's \<^verbatim>\<open>registerDto.role || 'student'\<close>: the right operand when the left one is
  falsy, which for an optional string is \<^verbatim>\<open>undefined\<close> or the empty string.
\<close>

fun role_or_student :: "string option \<Rightarrow> string" where
  "role_or_student None = ''student''"
| "role_or_student (Some r) = (if r = [] then ''student'' else r)"

text \<open>
  \<^verbatim>\<open>AuthService.register\<close>, called unchanged by \<^verbatim>\<open>AuthController.register\<close>, the handler of
  \<^verbatim>\<open>POST /auth/register\<close>. It returns the response or the exception, and the users table.
\<close>

definition AuthService_register ::
  "Bcrypt \<Rightarrow> JwtService \<Rightarrow> UsersRepo \<Rightarrow> RegisterDto
     \<Rightarrow> (HttpException + LoginResponse) \<times> UsersRepo" where
  "AuthService_register bcrypt jwtService repo registerDto =
     (case findByEmail repo (reg_email registerDto) of
        Some existingUser \<Rightarrow> (Inl (UnauthorizedException (Some ''Email already exists'')), repo)
      | None \<Rightarrow>
          (case UsersService_create bcrypt repo
                  \<lparr> new_name = reg_name registerDto,
                    new_email = reg_email registerDto,
                    new_password = reg_password registerDto,
                    new_role = role_or_student (reg_role registerDto) \<rparr> of
             (Inl e, repo') \<Rightarrow> (Inl e, repo')
           | (Inr user, repo') \<Rightarrow> (Inr (AuthService_login jwtService (omit_password user)), repo')))"

section \<open>Access gate: the JWT strategy and guard\<close>

text \<open>The options the strategy's constructor passes to \<^verbatim>\<open>passport-jwt\<close>.\<close>

record StrategyOptions =
  ignoreExpiration :: bool
  secretOrKey :: string

definition JwtStrategy_options :: StrategyOptions where
  "JwtStrategy_options = \<lparr> ignoreExpiration = False, secretOrKey = ''abc123'' \<rparr>"

text \<open>
  The library's verification of a well-formed token under the strategy's options at clock
  time \<open>now\<close>: the signature must have been made with \<open>secretOrKey\<close>, and unless
  \<open>ignoreExpiration\<close> is set a token carrying an expiry stamp is refused from that time on.
\<close>

definition jwt_verify :: "StrategyOptions \<Rightarrow> nat \<Rightarrow> Jwt \<Rightarrow> JwtPayload option" where
  "jwt_verify opts now t =
     (if jwt_signed_with t \<noteq> secretOrKey opts then None
      else if \<not> ignoreExpiration opts \<and> (case jwt_exp t of None \<Rightarrow> False | Some e \<Rightarrow> e \<le> now)
      then None
      else Some (jwt_claims t))"

text \<open>The object that becomes \<^verbatim>\<open>req.user\<close>.\<close>

record RequestUser =
  ctx_id :: nat
  ctx_email :: string
  ctx_role :: string
  ctx_name :: string

text \<open>\<^verbatim>\<open>JwtStrategy.validate\<close>.\<close>

definition JwtStrategy_validate :: "UsersRepo \<Rightarrow> JwtPayload \<Rightarrow> HttpException + RequestUser" where
  "JwtStrategy_validate repo payload =
     (case findOne repo (payload_sub payload) of
        None \<Rightarrow> Inl (UnauthorizedException None)
      | Some user \<Rightarrow>
          Inr \<lparr> ctx_id = user_id user, ctx_email = user_email user,
                ctx_role = user_role user, ctx_name = user_name user \<rparr>)"

text \<open>
  \<^verbatim>\<open>JwtAuthGuard\<close>, that is \<^verbatim>\<open>AuthGuard('jwt')\<close> running the strategy: the bearer token of
  the \<open>Authorization\<close> header (\<open>None\<close> when the header is missing or not a bearer
  credential) is verified, then \<open>validate\<close> runs on its payload. Every failure is an
  \<open>UnauthorizedException\<close>.
\<close>

definition JwtAuthGuard ::
  "nat \<Rightarrow> UsersRepo \<Rightarrow> BearerToken option \<Rightarrow> HttpException + RequestUser" where
  "JwtAuthGuard now repo bearer =
     (case bearer of
        None \<Rightarrow> Inl (UnauthorizedException None)
      | Some (Malformed _) \<Rightarrow> Inl (UnauthorizedException None)
      | Some (WellFormed t) \<Rightarrow>
          (case jwt_verify JwtStrategy_options now t of
             None \<Rightarrow> Inl (UnauthorizedException None)
           | Some payload \<Rightarrow> JwtStrategy_validate repo payload))"

section \<open>Courses\<close>

record Course =
  course_id :: nat
  course_title :: string
  course_description :: string
  course_videoUrl :: "string option"
  course_thumbnailUrl :: "string option"
  course_instructor :: nat

record CoursesRepo =
  courses_rows :: "Course list"
  courses_last_id :: nat

text \<open>The request body of \<^verbatim>\<open>POST /courses\<close>, as the course form sends it.\<close>

record CourseBody =
  body_title :: string
  body_description :: string
  body_videoUrl :: "string option"
  body_thumbnailUrl :: "string option"

text \<open>\<^verbatim>\<open>CoursesService.create\<close>: build the course with its instructor and save it.\<close>

definition CoursesService_create :: "CoursesRepo \<Rightarrow> CourseBody \<Rightarrow> nat \<Rightarrow> Course \<times> CoursesRepo" where
  "CoursesService_create repo course instructor =
     (let newCourse = \<lparr> course_id = Suc (courses_last_id repo),
                        course_title = body_title course,
                        course_description = body_description course,
                        course_videoUrl = body_videoUrl course,
                        course_thumbnailUrl = body_thumbnailUrl course,
                        course_instructor = instructor \<rparr>
      in (newCourse,
          repo \<lparr> courses_rows := courses_rows repo @ [newCourse],
                 courses_last_id := Suc (courses_last_id repo) \<rparr>))"

text \<open>\<^verbatim>\<open>CoursesController.create\<close>, run once the guard has set \<^verbatim>\<open>req.user\<close>.\<close>

definition CoursesController_create ::
  "CoursesRepo \<Rightarrow> RequestUser \<Rightarrow> CourseBody \<Rightarrow> (HttpException + Course) \<times> CoursesRepo" where
  "CoursesController_create repo req_user body =
     (if ctx_role req_user \<noteq> ''admin''
      then (Inl (ForbiddenException (Some ''Only admins can create courses'')), repo)
      else (case CoursesService_create repo body (ctx_id req_user) of
              (course, repo') \<Rightarrow> (Inr course, repo')))"

text \<open>\<^verbatim>\<open>POST /courses\<close>: \<^verbatim>\<open>@UseGuards(JwtAuthGuard)\<close> runs before the controller method.\<close>

definition post_courses ::
  "nat \<Rightarrow> UsersRepo \<Rightarrow> CoursesRepo \<Rightarrow> BearerToken option \<Rightarrow> CourseBody
     \<Rightarrow> (HttpException + Course) \<times> CoursesRepo" where
  "post_courses now users courses bearer body =
     (case JwtAuthGuard now users bearer of
        Inl e \<Rightarrow> (Inl e, courses)
      | Inr req_user \<Rightarrow> CoursesController_create courses req_user body)"

section \<open>Enrollments\<close>





section \<open>Client: the response interceptor of the axios instance\<close>

text \<open>The part of the browser the interceptor touches.\<close>

record Browser =
  localStorage :: "string \<rightharpoonup> string"
  location_href :: string

record AxiosRequestConfig =
  config_method :: string
  config_url :: string

record AxiosResponse =
  response_status :: nat
  response_data :: string
  response_config :: AxiosRequestConfig

text \<open>An axios error; \<open>error.response\<close> is undefined when no response arrived.\<close>

record AxiosError =
  error_response :: "AxiosResponse option"
  error_config :: AxiosRequestConfig

datatype Settled = Fulfilled AxiosResponse | Rejected AxiosError

text \<open>
  The instance is created with \<^verbatim>\<open>axios.create({ baseURL })\<close> only, so the library's default
  status check applies: a response settles as fulfilled for a status from 200 to 299 and
  as rejected, carried in the error, otherwise.
\<close>

definition settle :: "AxiosResponse \<Rightarrow> Settled" where
  "settle response =
     (if 200 \<le> response_status response \<and> response_status response < 300
      then Fulfilled response
      else Rejected \<lparr> error_response = Some response, error_config = response_config response \<rparr>)"

text \<open>\<^verbatim>\<open>localStorage.removeItem(key)\<close>.\<close>

definition removeItem :: "string \<Rightarrow> Browser \<Rightarrow> Browser" where
  "removeItem key browser = browser \<lparr> localStorage := (localStorage browser)(key := None) \<rparr>"

text \<open>
  The two handlers given to \<^verbatim>\<open>api.interceptors.response.use\<close>: the first returns the
  response, the second logs out on \<^verbatim>\<open>error.response?.status === 401\<close> and rejects again.
\<close>

fun response_interceptor :: "Browser \<Rightarrow> Settled \<Rightarrow> Browser \<times> Settled" where
  "response_interceptor browser (Fulfilled response) = (browser, Fulfilled response)"
| "response_interceptor browser (Rejected error) =
     (if map_option response_status (error_response error) = Some 401
      then ((removeItem ''user'' (removeItem ''token'' browser)) \<lparr> location_href := ''/login'' \<rparr>,
            Rejected error)
      else (browser, Rejected error))"

text \<open>What the client does with an inbound response: settle it, then run the interceptor.\<close>

definition receive :: "Browser \<Rightarrow> AxiosResponse \<Rightarrow> Browser \<times> Settled" where
  "receive browser response = response_interceptor browser (settle response)"

section \<open>Concrete inputs\<close>

text \<open>
  A stand-in for the hashing library, and a small users table with one student and one
  admin, on which the theorems below are instantiated.
\<close>

definition example_bcrypt :: Bcrypt where
  "example_bcrypt =
     \<lparr> bcrypt_hash = (\<lambda>password rounds. ''hashed:'' @ password),
       bcrypt_compare = (\<lambda>password hash. hash = ''hashed:'' @ password) \<rparr>"

definition example_jwtService :: JwtService where
  "example_jwtService = \<lparr> jwt_secret = ''abc123'', jwt_expiresIn = Some 3600, jwt_now = 1000 \<rparr>"

definition alice :: User where
  "alice = \<lparr> user_id = 1, user_name = ''Alice'', user_email = ''alice@example.com'',
             user_password = ''hashed:wonderland'', user_role = ''student'' \<rparr>"

definition root_user :: User where
  "root_user = \<lparr> user_id = 2, user_name = ''Root'', user_email = ''root@example.com'',
                 user_password = ''hashed:toor-toor'', user_role = ''admin'' \<rparr>"

definition example_users :: UsersRepo where
  "example_users = \<lparr> users_rows = [alice, root_user], users_last_id = 2 \<rparr>"

text \<open>
  Two tokens signed with the strategy's key and valid until time 4600. Alice's token
  carries the role claim "admin" although her row says "student".
\<close>

definition alice_token :: Jwt where
  "alice_token =
     \<lparr> jwt_claims = \<lparr> payload_email = ''alice@example.com'', payload_sub = 1,
                       payload_role = ''admin'' \<rparr>,
       jwt_iat = 1000, jwt_exp = Some 4600, jwt_signed_with = ''abc123'' \<rparr>"

definition root_token :: Jwt where
  "root_token =
     \<lparr> jwt_claims = \<lparr> payload_email = ''root@example.com'', payload_sub = 2,
                       payload_role = ''admin'' \<rparr>,
       jwt_iat = 1000, jwt_exp = Some 4600, jwt_signed_with = ''abc123'' \<rparr>"

definition example_courses :: CoursesRepo where
  "example_courses =
     \<lparr> courses_rows = [\<lparr> course_id = 5, course_title = ''Math 101'',
                          course_description = ''Numbers'', course_videoUrl = None,
                          course_thumbnailUrl = None, course_instructor = 2 \<rparr>],
       courses_last_id = 5 \<rparr>"

definition example_body :: CourseBody where
  "example_body = \<lparr> body_title = ''Logic'', body_description = ''Proofs'',
                    body_videoUrl = None, body_thumbnailUrl = None \<rparr>"


definition example_browser :: Browser where
  "example_browser =
     \<lparr> localStorage = [''token'' \<mapsto> ''eyJhbGc'', ''user'' \<mapsto> ''{id:1}'', ''theme'' \<mapsto> ''dark''],
       location_href = ''/my-courses'' \<rparr>"

definition example_request :: AxiosRequestConfig where
  "example_request = \<lparr> config_method = ''get'', config_url = ''/enrollments/my-courses'' \<rparr>"

section \<open>Lookups and registration, step by step\<close>

lemma find_distinct_key:
  "distinct (map f xs) \<Longrightarrow> x \<in> set xs \<Longrightarrow> find (\<lambda>y. f y = f x) xs = Some x"
proof (induction xs)
  case Nil
  then show ?case by simp
next
  case (Cons a xs)
  then show ?case by (cases "a = x") force+
qed

lemma findByEmail_None_iff:
  "findByEmail repo email = None \<longleftrightarrow> \<not> list_ex (\<lambda>u. user_email u = email) (users_rows repo)"
  by (auto simp add: findByEmail_def find_None_iff list_ex_iff)

text \<open>Registration with an email no row has: the new row, the response, the new table.\<close>

lemma register_fresh:
  assumes "findByEmail repo (reg_email dto) = None"
  shows "AuthService_register bc js repo dto =
     (let u = \<lparr> user_id = Suc (users_last_id repo), user_name = reg_name dto,
                 user_email = reg_email dto,
                 user_password = bcrypt_hash bc (reg_password dto) 10,
                 user_role = role_or_student (reg_role dto) \<rparr>
      in (Inr (AuthService_login js (omit_password u)),
          repo \<lparr> users_rows := users_rows repo @ [u], users_last_id := Suc (users_last_id repo) \<rparr>))"
proof -
  from assms have "\<not> list_ex (\<lambda>u. user_email u = reg_email dto) (users_rows repo)"
    by (simp add: findByEmail_None_iff)
  with assms show ?thesis
    by (simp add: AuthService_register_def UsersService_create_def Let_def)
qed

text \<open>Registration with an email some row has: the exception, and the table as it was.\<close>

lemma register_taken:
  assumes "findByEmail repo (reg_email dto) = Some u"
  shows "AuthService_register bc js repo dto =
           (Inl (UnauthorizedException (Some ''Email already exists'')), repo)"
  using assms by (simp add: AuthService_register_def)

text \<open>With the email column unique, the lookup by a row's email returns that row.\<close>

lemma findByEmail_unique:
  assumes "distinct (map user_email (users_rows repo))" and "u \<in> set (users_rows repo)"
  shows "findByEmail repo (user_email u) = Some u"
  using assms by (simp add: findByEmail_def find_distinct_key)

text \<open>
  Registration keeps the email column unique: it adds a row only for an email no row has.
\<close>

lemma register_keeps_emails_distinct:
  assumes "distinct (map user_email (users_rows repo))"
  shows "distinct (map user_email (users_rows (snd (AuthService_register bc js repo dto))))"
proof (cases "findByEmail repo (reg_email dto)")
  case None
  then have "reg_email dto \<notin> user_email ` set (users_rows repo)"
    by (auto simp: findByEmail_def find_None_iff)
  with assms None show ?thesis
    by (simp add: register_fresh Let_def)
next
  case (Some u)
  with assms show ?thesis
    by (simp add: register_taken)
qed

text \<open>
  A token signed with the strategy's key and not expired, whose subject is the id of a
  row, passes the guard, and \<^verbatim>\<open>req.user\<close> is built from that row.
\<close>

lemma guard_resolves:
  assumes "jwt_signed_with t = secretOrKey JwtStrategy_options"
      and "\<forall>e. jwt_exp t = Some e \<longrightarrow> now < e"
      and "findOne users (payload_sub (jwt_claims t)) = Some u"
  shows "JwtAuthGuard now users (Some (WellFormed t))
           = Inr \<lparr> ctx_id = user_id u, ctx_email = user_email u,
                   ctx_role = user_role u, ctx_name = user_name u \<rparr>"
proof -
  have "jwt_verify JwtStrategy_options now t = Some (jwt_claims t)"
    using assms(1,2) by (auto simp: jwt_verify_def JwtStrategy_options_def split: option.splits)
  with assms(3) show ?thesis
    by (simp add: JwtAuthGuard_def JwtStrategy_validate_def)
qed

section \<open>Registration with a registered email\<close>

text \<open>
  C1. The claim: a registration whose email is already registered fails with a Conflict
  error (status 409) and leaves the registered principal's record unchanged. Evaluated
  here on the table holding Alice and a second registration with her email: the users
  table is returned unchanged, but the exception thrown is \<open>UnauthorizedException\<close>,
  status 401, not a \<open>ConflictException\<close>.
\<close>

theorem register_duplicate_email_is_unauthorized:
  "AuthService_register example_bcrypt example_jwtService example_users
     \<lparr> reg_name = ''Mallory'', reg_email = ''alice@example.com'',
       reg_password = ''letmein'', reg_role = None \<rparr>
   = (Inl (UnauthorizedException (Some ''Email already exists'')), example_users)
   \<and> getStatus (UnauthorizedException (Some ''Email already exists'')) = 401
   \<and> UnauthorizedException (Some ''Email already exists'')
       \<noteq> ConflictException (Some ''Email already exists'')"
  by (simp add: AuthService_register_def findByEmail_def example_users_def alice_def root_user_def)

section \<open>Failed logins\<close>

text \<open>
  C2. A login fails when no principal has the submitted email and when the submitted
  password does not match the stored hash of the principal found; in both cases the error
  is the same \<open>UnauthorizedException\<close> with the message "Invalid credentials", and any two
  failing logins, whatever the table and the request, return equal errors.
\<close>

theorem login_failure_uniform:
  "(findByEmail repo (dto_email dto) = None \<longrightarrow>
      AuthController_login bc js repo dto = Inl (UnauthorizedException (Some ''Invalid credentials'')))
   \<and> (\<forall>u. findByEmail repo (dto_email dto) = Some u
            \<and> \<not> bcrypt_compare bc (dto_password dto) (user_password u) \<longrightarrow>
      AuthController_login bc js repo dto = Inl (UnauthorizedException (Some ''Invalid credentials'')))
   \<and> (\<forall>bc' js' repo' dto' e e'.
          AuthController_login bc js repo dto = Inl e
          \<and> AuthController_login bc' js' repo' dto' = Inl e' \<longrightarrow> e = e')"
  by (auto simp: AuthController_login_def AuthService_validateUser_def validatePassword_def
           split: option.splits if_splits)

theorem login_failure_uniform_witness:
  "AuthController_login example_bcrypt example_jwtService example_users
      \<lparr> dto_email = ''nobody@example.com'', dto_password = ''wonderland'' \<rparr>
     = Inl (UnauthorizedException (Some ''Invalid credentials''))
   \<and> AuthController_login example_bcrypt example_jwtService example_users
      \<lparr> dto_email = ''alice@example.com'', dto_password = ''looking-glass'' \<rparr>
     = Inl (UnauthorizedException (Some ''Invalid credentials''))"
  using login_failure_uniform [of example_users
          "\<lparr> dto_email = ''nobody@example.com'', dto_password = ''wonderland'' \<rparr>"
          example_bcrypt example_jwtService]
        login_failure_uniform [of example_users
          "\<lparr> dto_email = ''alice@example.com'', dto_password = ''looking-glass'' \<rparr>"
          example_bcrypt example_jwtService]
  by (simp add: findByEmail_def example_users_def alice_def root_user_def example_bcrypt_def)

section \<open>Successful logins\<close>

text \<open>
  C3. For every stored principal (in a users table with unique emails) and every login
  request with that principal's email and a password that \<^verbatim>\<open>bcrypt.compare\<close> accepts
  against the stored hash, login succeeds: it returns a token signed with the service's
  secret whose decoded subject is the principal's id, together with the principal view
  of id, name, email and role.
\<close>

theorem login_success_subject:
  assumes "distinct (map user_email (users_rows repo))"
      and "u \<in> set (users_rows repo)"
      and "dto_email dto = user_email u"
      and "bcrypt_compare bc (dto_password dto) (user_password u)"
  shows "\<exists>r t. AuthController_login bc js repo dto = Inr r
           \<and> access_token r = WellFormed t
           \<and> jwt_signed_with t = jwt_secret js
           \<and> map_option payload_sub (jwt_decode (access_token r)) = Some (user_id u)
           \<and> response_user r = \<lparr> view_id = user_id u, view_name = user_name u,
                                  view_email = user_email u, view_role = user_role u \<rparr>"
proof -
  from assms(1,2,3) have "findByEmail repo (dto_email dto) = Some u"
    by (simp add: findByEmail_unique)
  with assms(4) show ?thesis
    by (simp add: AuthController_login_def AuthService_validateUser_def validatePassword_def
        AuthService_login_def JwtService_sign_def omit_password_def)
qed

theorem login_success_subject_witness:
  "\<exists>r. AuthController_login example_bcrypt example_jwtService example_users
          \<lparr> dto_email = ''alice@example.com'', dto_password = ''wonderland'' \<rparr> = Inr r
       \<and> map_option payload_sub (jwt_decode (access_token r)) = Some 1
       \<and> response_user r = \<lparr> view_id = 1, view_name = ''Alice'',
                              view_email = ''alice@example.com'', view_role = ''student'' \<rparr>"
  using login_success_subject [of example_users alice
          "\<lparr> dto_email = ''alice@example.com'', dto_password = ''wonderland'' \<rparr>"
          example_bcrypt example_jwtService]
  by (auto simp add: example_users_def alice_def root_user_def example_bcrypt_def)

section \<open>The access gate\<close>

text \<open>
  C4. A well-formed bearer token that was signed with a key other than the strategy's
  \<open>secretOrKey\<close>, or whose expiry stamp has been reached, is rejected by the guard with an
  \<open>UnauthorizedException\<close> (status 401); the guarded course creation then fails with it
  and leaves the courses table as it was.
\<close>

theorem gate_rejects_foreign_or_expired:
  assumes "jwt_signed_with t \<noteq> secretOrKey JwtStrategy_options
           \<or> (\<exists>e. jwt_exp t = Some e \<and> e \<le> now)"
  shows "JwtAuthGuard now users (Some (WellFormed t)) = Inl (UnauthorizedException None)
         \<and> post_courses now users courses (Some (WellFormed t)) body
             = (Inl (UnauthorizedException None), courses)
         \<and> getStatus (UnauthorizedException None) = 401"
  using assms
  by (auto simp: JwtAuthGuard_def post_courses_def jwt_verify_def JwtStrategy_options_def)

theorem gate_rejects_foreign_or_expired_witness:
  "JwtAuthGuard 1000 example_users (Some (WellFormed (root_token \<lparr> jwt_signed_with := ''xyz789'' \<rparr>)))
     = Inl (UnauthorizedException None)
   \<and> JwtAuthGuard 4600 example_users (Some (WellFormed root_token))
     = Inl (UnauthorizedException None)"
  using gate_rejects_foreign_or_expired
          [of "root_token \<lparr> jwt_signed_with := ''xyz789'' \<rparr>" 1000 example_users
              example_courses example_body]
        gate_rejects_foreign_or_expired
          [of root_token 4600 example_users example_courses example_body]
  by (simp add: root_token_def JwtStrategy_options_def)

text \<open>
  C5. For a token signed with the strategy's key and not expired, the guard looks up the
  row whose id is the token's subject: without such a row it fails with an
  \<open>UnauthorizedException\<close>; with one, \<^verbatim>\<open>req.user\<close> is the id, email, role and name
  of that row. The role claim of the token has no influence on the outcome.
\<close>

theorem gate_refetches_principal:
  assumes "jwt_signed_with t = secretOrKey JwtStrategy_options"
      and "\<forall>e. jwt_exp t = Some e \<longrightarrow> now < e"
  shows "(findOne users (payload_sub (jwt_claims t)) = None \<longrightarrow>
            JwtAuthGuard now users (Some (WellFormed t)) = Inl (UnauthorizedException None))
       \<and> (\<forall>u. findOne users (payload_sub (jwt_claims t)) = Some u \<longrightarrow>
            JwtAuthGuard now users (Some (WellFormed t))
              = Inr \<lparr> ctx_id = user_id u, ctx_email = user_email u,
                      ctx_role = user_role u, ctx_name = user_name u \<rparr>)
       \<and> (\<forall>r. JwtAuthGuard now users
                  (Some (WellFormed (t \<lparr> jwt_claims := (jwt_claims t) \<lparr> payload_role := r \<rparr> \<rparr>)))
              = JwtAuthGuard now users (Some (WellFormed t)))"
proof -
  have v: "\<And>c. jwt_verify JwtStrategy_options now (t \<lparr> jwt_claims := c \<rparr>) = Some c"
    using assms by (auto simp: jwt_verify_def JwtStrategy_options_def split: option.splits)
  from v [of "jwt_claims t"] have v0: "jwt_verify JwtStrategy_options now t = Some (jwt_claims t)"
    by simp
  show ?thesis
    by (simp add: JwtAuthGuard_def v v0 JwtStrategy_validate_def)
qed

theorem gate_refetches_principal_witness:
  "JwtAuthGuard 2000 example_users (Some (WellFormed alice_token))
     = Inr \<lparr> ctx_id = 1, ctx_email = ''alice@example.com'',
             ctx_role = ''student'', ctx_name = ''Alice'' \<rparr>
   \<and> payload_role (jwt_claims alice_token) = ''admin''
   \<and> JwtAuthGuard 2000 \<lparr> users_rows = [root_user], users_last_id = 2 \<rparr>
        (Some (WellFormed alice_token)) = Inl (UnauthorizedException None)"
  using gate_refetches_principal [of alice_token 2000 example_users]
        gate_refetches_principal [of alice_token 2000 "\<lparr> users_rows = [root_user], users_last_id = 2 \<rparr>"]
  by (simp add: alice_token_def JwtStrategy_options_def findOne_def example_users_def
      alice_def root_user_def)

section \<open>Admin-only course creation\<close>

text \<open>
  C6. For a request to create a course with a valid token that resolves to a principal:
  if the principal's role is not "admin" the request fails with a \<open>ForbiddenException\<close>
  (status 403, never an \<open>UnauthorizedException\<close>) and the courses table is unchanged; if
  the role is "admin" the request succeeds and the new course, with the body's fields and
  the principal as instructor, is appended to the courses table.
\<close>

theorem create_course_role_gate:
  assumes "jwt_signed_with t = secretOrKey JwtStrategy_options"
      and "\<forall>e. jwt_exp t = Some e \<longrightarrow> now < e"
      and "findOne users (payload_sub (jwt_claims t)) = Some u"
  shows "(user_role u \<noteq> ''admin'' \<longrightarrow>
            post_courses now users courses (Some (WellFormed t)) body
              = (Inl (ForbiddenException (Some ''Only admins can create courses'')), courses)
            \<and> getStatus (ForbiddenException (Some ''Only admins can create courses'')) = 403
            \<and> (\<forall>m. ForbiddenException (Some ''Only admins can create courses'')
                      \<noteq> UnauthorizedException m))
       \<and> (user_role u = ''admin'' \<longrightarrow>
            (\<exists>c courses'. post_courses now users courses (Some (WellFormed t)) body = (Inr c, courses')
               \<and> courses_rows courses' = courses_rows courses @ [c]
               \<and> course_title c = body_title body
               \<and> course_description c = body_description body
               \<and> course_videoUrl c = body_videoUrl body
               \<and> course_thumbnailUrl c = body_thumbnailUrl body
               \<and> course_instructor c = user_id u))"
  by (simp add: post_courses_def guard_resolves [OF assms] CoursesController_create_def
      CoursesService_create_def Let_def)

theorem create_course_role_gate_witness:
  "post_courses 2000 example_users example_courses (Some (WellFormed alice_token)) example_body
     = (Inl (ForbiddenException (Some ''Only admins can create courses'')), example_courses)
   \<and> (\<exists>c courses'. post_courses 2000 example_users example_courses
                      (Some (WellFormed root_token)) example_body = (Inr c, courses')
         \<and> courses_rows courses' = courses_rows example_courses @ [c]
         \<and> course_title c = ''Logic'' \<and> course_instructor c = 2)"
  using create_course_role_gate [of alice_token 2000 example_users alice example_courses example_body]
        create_course_role_gate [of root_token 2000 example_users root_user example_courses example_body]
  by (auto simp add: alice_token_def root_token_def JwtStrategy_options_def findOne_def
      example_users_def alice_def root_user_def example_body_def)

section \<open>The submitted password\<close>

text \<open>
  C7. Registration persists the result of \<^verbatim>\<open>bcrypt.hash\<close> on the submitted password, not
  the password, and answers with the view of id, name, email and role. The registration
  response is the same whatever the password and the hash function; the login response
  is built from the stored row without its password column, so it is the same whatever
  that column holds.
\<close>

theorem secret_hashed_and_redacted:
  "(findByEmail repo (reg_email dto) = None \<longrightarrow>
      (\<exists>r u repo'. AuthService_register bc js repo dto = (Inr r, repo')
         \<and> users_rows repo' = users_rows repo @ [u]
         \<and> user_password u = bcrypt_hash bc (reg_password dto) 10
         \<and> response_user r = \<lparr> view_id = user_id u, view_name = user_name u,
                                view_email = user_email u, view_role = user_role u \<rparr>))
   \<and> (\<forall>bc' p. fst (AuthService_register bc' js repo (dto \<lparr> reg_password := p \<rparr>))
               = fst (AuthService_register bc js repo dto))
   \<and> (\<forall>h. AuthService_login js (omit_password (user \<lparr> user_password := h \<rparr>))
           = AuthService_login js (omit_password user))
   \<and> (\<forall>r. AuthController_login bc js repo login_dto = Inr r \<longrightarrow>
          (\<exists>u \<in> set (users_rows repo).
              r = AuthService_login js (omit_password u)
              \<and> response_user r = \<lparr> view_id = user_id u, view_name = user_name u,
                                     view_email = user_email u, view_role = user_role u \<rparr>))"
proof -
  have a: "findByEmail repo (reg_email dto) = None \<longrightarrow>
      (\<exists>r u repo'. AuthService_register bc js repo dto = (Inr r, repo')
         \<and> users_rows repo' = users_rows repo @ [u]
         \<and> user_password u = bcrypt_hash bc (reg_password dto) 10
         \<and> response_user r = \<lparr> view_id = user_id u, view_name = user_name u,
                                view_email = user_email u, view_role = user_role u \<rparr>)"
    by (simp add: register_fresh Let_def AuthService_login_def omit_password_def)
  have b: "fst (AuthService_register bc' js repo (dto \<lparr> reg_password := p \<rparr>))
               = fst (AuthService_register bc js repo dto)" for bc' p
  proof (cases "findByEmail repo (reg_email dto)")
    case None
    then show ?thesis
      by (simp add: register_fresh Let_def omit_password_def)
  next
    case (Some v)
    then show ?thesis
      by (simp add: register_taken)
  qed
  have c: "AuthService_login js (omit_password (user \<lparr> user_password := h \<rparr>))
           = AuthService_login js (omit_password user)" for h
    by (simp add: omit_password_def)
  have d: "\<exists>u \<in> set (users_rows repo).
              r = AuthService_login js (omit_password u)
              \<and> response_user r = \<lparr> view_id = user_id u, view_name = user_name u,
                                     view_email = user_email u, view_role = user_role u \<rparr>"
    if "AuthController_login bc js repo login_dto = Inr r" for r
  proof -
    from that obtain u where u: "findByEmail repo (dto_email login_dto) = Some u"
        and r: "r = AuthService_login js (omit_password u)"
      by (auto simp: AuthController_login_def AuthService_validateUser_def
               split: option.splits if_splits)
    from u have "u \<in> set (users_rows repo)"
      by (auto simp: findByEmail_def find_Some_iff)
    with r show ?thesis
      by (auto simp: AuthService_login_def omit_password_def)
  qed
  from a b c d show ?thesis by blast
qed

theorem secret_hashed_and_redacted_witness:
  "(\<exists>r u repo'. AuthService_register example_bcrypt example_jwtService example_users
        \<lparr> reg_name = ''Carol'', reg_email = ''carol@example.com'',
          reg_password = ''s3cret!'', reg_role = Some ''instructor'' \<rparr> = (Inr r, repo')
      \<and> users_rows repo' = users_rows example_users @ [u]
      \<and> user_password u = ''hashed:s3cret!''
      \<and> response_user r = \<lparr> view_id = 3, view_name = ''Carol'',
                             view_email = ''carol@example.com'', view_role = ''instructor'' \<rparr>)
   \<and> (\<exists>r. AuthController_login example_bcrypt example_jwtService example_users
              \<lparr> dto_email = ''alice@example.com'', dto_password = ''wonderland'' \<rparr> = Inr r
          \<and> r = AuthService_login example_jwtService (omit_password alice)
          \<and> r = AuthService_login example_jwtService
                  (omit_password (alice \<lparr> user_password := ''anything'' \<rparr>)))"
  using secret_hashed_and_redacted [of example_users
          "\<lparr> reg_name = ''Carol'', reg_email = ''carol@example.com'',
             reg_password = ''s3cret!'', reg_role = Some ''instructor'' \<rparr>"
          example_bcrypt example_jwtService alice
          "\<lparr> dto_email = ''alice@example.com'', dto_password = ''wonderland'' \<rparr>"]
  by (auto simp add: findByEmail_def example_users_def alice_def root_user_def example_bcrypt_def
      register_fresh Let_def AuthController_login_def AuthService_validateUser_def
      validatePassword_def omit_password_def)

section \<open>The client's reaction to status 401\<close>

text \<open>
  C8. An inbound response with status 401, whatever request it answers, removes the
  entries \<open>token\<close> and \<open>user\<close> from local storage (and no other entry) and sets the
  location to \<open>/login\<close>. A response with any other status leaves the browser state
  unchanged, and so does an error without a response.
\<close>

theorem unauthorized_response_logs_out:
  "(response_status response = 401 \<longrightarrow>
      localStorage (fst (receive browser response)) ''token'' = None
      \<and> localStorage (fst (receive browser response)) ''user'' = None
      \<and> location_href (fst (receive browser response)) = ''/login''
      \<and> (\<forall>key. key \<noteq> ''token'' \<and> key \<noteq> ''user'' \<longrightarrow>
             localStorage (fst (receive browser response)) key = localStorage browser key))
   \<and> (response_status response \<noteq> 401 \<longrightarrow> fst (receive browser response) = browser)
   \<and> (error_response error = None \<longrightarrow>
         fst (response_interceptor browser (Rejected error)) = browser)"
  by (simp add: receive_def settle_def removeItem_def)

theorem unauthorized_response_logs_out_witness:
  "fst (receive example_browser
          \<lparr> response_status = 401, response_data = ''Unauthorized'',
            response_config = example_request \<rparr>)
     = \<lparr> localStorage = [''theme'' \<mapsto> ''dark''], location_href = ''/login'' \<rparr>
   \<and> fst (receive example_browser
          \<lparr> response_status = 403, response_data = ''Forbidden'',
            response_config = example_request \<rparr>) = example_browser"
  using unauthorized_response_logs_out [of
          "\<lparr> response_status = 401, response_data = ''Unauthorized'',
             response_config = example_request \<rparr>" example_browser]
        unauthorized_response_logs_out [of
          "\<lparr> response_status = 403, response_data = ''Forbidden'',
             response_config = example_request \<rparr>" example_browser]
  by (auto simp add: example_browser_def receive_def settle_def removeItem_def fun_eq_iff)

section \<open>The role of a new principal\<close>

text \<open>
  C9. A registration with an unregistered email creates a principal whose role is
  "student" when the request's role is absent or empty, and the request's role
  otherwise; the response shows that role.
\<close>

theorem register_role_default:
  assumes "findByEmail repo (reg_email dto) = None"
  shows "\<exists>r u repo'. AuthService_register bc js repo dto = (Inr r, repo')
           \<and> users_rows repo' = users_rows repo @ [u]
           \<and> user_email u = reg_email dto
           \<and> view_role (response_user r) = user_role u
           \<and> (reg_role dto = None \<longrightarrow> user_role u = ''student'')
           \<and> (reg_role dto = Some [] \<longrightarrow> user_role u = ''student'')
           \<and> (\<forall>role. reg_role dto = Some role \<and> role \<noteq> [] \<longrightarrow> user_role u = role)"
  using assms
  by (auto simp add: register_fresh Let_def AuthService_login_def omit_password_def)

theorem register_role_default_witness:
  "(\<exists>r u repo'. AuthService_register example_bcrypt example_jwtService example_users
        \<lparr> reg_name = ''Dave'', reg_email = ''dave@example.com'',
          reg_password = ''hunter22'', reg_role = None \<rparr> = (Inr r, repo')
      \<and> users_rows repo' = users_rows example_users @ [u] \<and> user_role u = ''student'')
   \<and> (\<exists>r u repo'. AuthService_register example_bcrypt example_jwtService example_users
        \<lparr> reg_name = ''Dave'', reg_email = ''dave@example.com'',
          reg_password = ''hunter22'', reg_role = Some ''admin'' \<rparr> = (Inr r, repo')
      \<and> users_rows repo' = users_rows example_users @ [u] \<and> user_role u = ''admin'')"
  using register_role_default [of example_users
          "\<lparr> reg_name = ''Dave'', reg_email = ''dave@example.com'',
             reg_password = ''hunter22'', reg_role = None \<rparr>" example_bcrypt example_jwtService]
        register_role_default [of example_users
          "\<lparr> reg_name = ''Dave'', reg_email = ''dave@example.com'',
             reg_password = ''hunter22'', reg_role = Some ''admin'' \<rparr>"
          example_bcrypt example_jwtService]
  by (auto simp add: findByEmail_def example_users_def alice_def root_user_def)

section \<open>Enrolling in a course\<close>




end
